theory Spec2Isabelle
  imports Complex_Main
begin

section \<open>Slicing events (libslic3r/SlicingEvents.hpp)\<close>

text \<open>
  Modelled from the spec: \<^verbatim>\<open>PrintBase::SlicingStatus\<close>, declared in \<^verbatim>\<open>PrintBase.hpp\<close>,
  which is not among the sources. The design gives it an integer percent, a message text,
  bit flags, a warning step and a boolean engine-variant indicator; the sources read the
  first four as \<^verbatim>\<open>percent\<close>, \<^verbatim>\<open>text\<close>, \<^verbatim>\<open>flags\<close> and \<^verbatim>\<open>warning_step\<close>
  (\<^verbatim>\<open>status_to_json\<close> in HttpSlicerApi.cpp).
\<close>

record SlicingStatus =
  percent :: int
  status_text :: string
  flags :: nat
  warning_step :: int
  engine_variant :: bool

datatype Status = Finished | Cancelled | Error

record SlicingCompletedInfo =
  status :: Status
  error_message :: string
  error_object_ids :: "nat list"
  critical_error :: bool
  invalidate_plater :: bool

text \<open>
  The five one-way operations of \<^verbatim>\<open>ISlicingEventSink\<close>. A value of this type is one
  invocation, with its argument, as a sink object receives it.
\<close>

datatype sink_call =
    Slicing_update SlicingStatus
  | Slicing_completed int
  | Process_finished SlicingCompletedInfo
  | Export_began
  | Export_finished string

text \<open>
  \<^verbatim>\<open>SlicingEventSinkPtr = std::shared_ptr<ISlicingEventSink>\<close>: \<open>None\<close> is the empty
  (null) pointer, \<open>Some a\<close> points to the sink object at address \<open>a\<close>. Two pointers
  compare equal exactly when they hold the same address.
\<close>

type_synonym SlicingEventSinkPtr = "nat option"

section \<open>The slicing event dispatcher (libslic3r/SlicingEventDispatcher.hpp)\<close>

record SlicingEventDispatcher =
  m_sinks :: "SlicingEventSinkPtr list"

definition new_dispatcher :: SlicingEventDispatcher where
  "new_dispatcher = \<lparr>m_sinks = []\<rparr>"

text \<open>\<^verbatim>\<open>if (!sink) return; m_sinks.push_back(sink);\<close>\<close>

definition add_sink :: "SlicingEventSinkPtr \<Rightarrow> SlicingEventDispatcher \<Rightarrow> SlicingEventDispatcher" where
  "add_sink sink d = (case sink of None \<Rightarrow> d | Some a \<Rightarrow> d\<lparr>m_sinks := m_sinks d @ [sink]\<rparr>)"

text \<open>\<^verbatim>\<open>m_sinks.erase(std::remove(begin, end, sink), end)\<close>: every element equal to
  \<^verbatim>\<open>sink\<close> goes, the others keep their relative order.\<close>

definition remove_sink :: "SlicingEventSinkPtr \<Rightarrow> SlicingEventDispatcher \<Rightarrow> SlicingEventDispatcher" where
  "remove_sink sink d = d\<lparr>m_sinks := filter (\<lambda>p. p \<noteq> sink) (m_sinks d)\<rparr>"

definition clear_sinks :: "SlicingEventDispatcher \<Rightarrow> SlicingEventDispatcher" where
  "clear_sinks d = d\<lparr>m_sinks := []\<rparr>"

definition sink_count :: "SlicingEventDispatcher \<Rightarrow> nat" where
  "sink_count d = length (m_sinks d)"

text \<open>
  The body shared by the five event methods:
  \<^verbatim>\<open>for (auto& sink : m_sinks) { if (sink) sink->method(args); }\<close>.
  The result is the sequence of invocations made, each with the address of the sink object
  that received it. The sink objects are external; an invocation is taken to return
  normally, as the sink contract demands.
\<close>

fun for_each_sink :: "SlicingEventSinkPtr list \<Rightarrow> sink_call \<Rightarrow> (nat \<times> sink_call) list" where
  "for_each_sink [] c = []"
| "for_each_sink (sink # sinks) c =
     (case sink of
        Some a \<Rightarrow> (a, c) # for_each_sink sinks c
      | None \<Rightarrow> for_each_sink sinks c)"

definition on_slicing_update :: "SlicingEventDispatcher \<Rightarrow> SlicingStatus \<Rightarrow> (nat \<times> sink_call) list" where
  "on_slicing_update d st = for_each_sink (m_sinks d) (Slicing_update st)"

definition on_slicing_completed :: "SlicingEventDispatcher \<Rightarrow> int \<Rightarrow> (nat \<times> sink_call) list" where
  "on_slicing_completed d timestamp = for_each_sink (m_sinks d) (Slicing_completed timestamp)"

definition on_process_finished :: "SlicingEventDispatcher \<Rightarrow> SlicingCompletedInfo \<Rightarrow> (nat \<times> sink_call) list" where
  "on_process_finished d info = for_each_sink (m_sinks d) (Process_finished info)"

definition on_export_began :: "SlicingEventDispatcher \<Rightarrow> (nat \<times> sink_call) list" where
  "on_export_began d = for_each_sink (m_sinks d) Export_began"

definition on_export_finished :: "SlicingEventDispatcher \<Rightarrow> string \<Rightarrow> (nat \<times> sink_call) list" where
  "on_export_finished d path = for_each_sink (m_sinks d) (Export_finished path)"

text \<open>Dispatching an event: the event method that belongs to the call.\<close>

fun dispatch :: "SlicingEventDispatcher \<Rightarrow> sink_call \<Rightarrow> (nat \<times> sink_call) list" where
  "dispatch d (Slicing_update st) = on_slicing_update d st"
| "dispatch d (Slicing_completed ts) = on_slicing_completed d ts"
| "dispatch d (Process_finished info) = on_process_finished d info"
| "dispatch d Export_began = on_export_began d"
| "dispatch d (Export_finished path) = on_export_finished d path"

text \<open>The same loop without the null check, to compare the guarded loop with.\<close>

definition for_each_sink_unguarded :: "SlicingEventSinkPtr list \<Rightarrow> sink_call \<Rightarrow> (nat \<times> sink_call) list" where
  "for_each_sink_unguarded sinks c = map (\<lambda>sink. (the sink, c)) sinks"

text \<open>Sequences of list-management calls made on a dispatcher.\<close>

datatype sink_op = Add_sink SlicingEventSinkPtr | Remove_sink SlicingEventSinkPtr | Clear_sinks

fun apply_sink_op :: "sink_op \<Rightarrow> SlicingEventDispatcher \<Rightarrow> SlicingEventDispatcher" where
  "apply_sink_op (Add_sink p) d = add_sink p d"
| "apply_sink_op (Remove_sink p) d = remove_sink p d"
| "apply_sink_op Clear_sinks d = clear_sinks d"

definition apply_sink_ops :: "sink_op list \<Rightarrow> SlicingEventDispatcher \<Rightarrow> SlicingEventDispatcher" where
  "apply_sink_ops ops d = fold apply_sink_op ops d"

text \<open>How often the sink object at \<open>a\<close> is invoked in a sequence of invocations.\<close>

definition times_invoked :: "nat \<Rightarrow> (nat \<times> sink_call) list \<Rightarrow> nat" where
  "times_invoked a calls = length (filter (\<lambda>x. fst x = a) calls)"

section \<open>The config change bus (libslic3r/ConfigChangeDispatcher.hpp)\<close>

text \<open>
  \<^verbatim>\<open>boost::any\<close>, by the type of the value it holds. The types the sources test for
  (\<^verbatim>\<open>serialize_value\<close>) have a constructor each; \<open>Any_other\<close> is an empty \<^verbatim>\<open>any\<close> or one
  holding any other type. The parameter \<open>'r\<close> stands for the values of \<^verbatim>\<open>double\<close>.
\<close>

datatype 'r any =
    Any_bool bool
  | Any_int int
  | Any_double 'r
  | Any_string string
  | Any_strings "string list"
  | Any_doubles "'r list"
  | Any_ints "int list"
  | Any_other

text \<open>
  \<^verbatim>\<open>std::weak_ptr<IConfigChangeListener>\<close>: \<open>None\<close> is an empty weak pointer, \<open>Some a\<close>
  refers to the listener object at \<open>a\<close>. Whether that object still exists is a fact of
  the heap, given as \<open>alive\<close>; \<^verbatim>\<open>lock()\<close> yields the object when it does, and null
  otherwise.
\<close>

type_synonym weak_listener = "nat option"

definition lock :: "(nat \<Rightarrow> bool) \<Rightarrow> weak_listener \<Rightarrow> nat option" where
  "lock alive w = (case w of None \<Rightarrow> None | Some a \<Rightarrow> if alive a then Some a else None)"

definition expired :: "(nat \<Rightarrow> bool) \<Rightarrow> weak_listener \<Rightarrow> bool" where
  "expired alive w = (lock alive w = None)"

text \<open>
  \<^verbatim>\<open>std::function<void(const std::string&, const boost::any&)>\<close>: \<open>None\<close> is an empty
  function object, \<open>Some f\<close> the callable \<open>f\<close>.
\<close>

type_synonym config_callback = "nat option"

record ConfigChangeDispatcher =
  m_listeners :: "weak_listener list"
  m_callbacks :: "config_callback list"
  m_enabled :: bool

text \<open>The state of \<^verbatim>\<open>instance()\<close> when first used: \<^verbatim>\<open>m_enabled{true}\<close>, both lists empty.\<close>

definition new_bus :: ConfigChangeDispatcher where
  "new_bus = \<lparr>m_listeners = [], m_callbacks = [], m_enabled = True\<rparr>"

definition add_listener :: "weak_listener \<Rightarrow> ConfigChangeDispatcher \<Rightarrow> ConfigChangeDispatcher" where
  "add_listener listener b = b\<lparr>m_listeners := m_listeners b @ [listener]\<rparr>"

definition add_callback :: "config_callback \<Rightarrow> ConfigChangeDispatcher \<Rightarrow> ConfigChangeDispatcher" where
  "add_callback callback b = b\<lparr>m_callbacks := m_callbacks b @ [callback]\<rparr>"

definition clear :: "ConfigChangeDispatcher \<Rightarrow> ConfigChangeDispatcher" where
  "clear b = b\<lparr>m_listeners := [], m_callbacks := []\<rparr>"

definition set_enabled :: "bool \<Rightarrow> ConfigChangeDispatcher \<Rightarrow> ConfigChangeDispatcher" where
  "set_enabled enabled b = b\<lparr>m_enabled := enabled\<rparr>"

definition is_enabled :: "ConfigChangeDispatcher \<Rightarrow> bool" where
  "is_enabled b = m_enabled b"

text \<open>What \<^verbatim>\<open>notify\<close> invokes: \<^verbatim>\<open>on_config_change\<close> of a listener object, or a callback.\<close>

datatype 'r bus_call =
    Listener_call nat string "'r any"
  | Callback_call nat string "'r any"

text \<open>\<^verbatim>\<open>m_listeners.erase(it)\<close>: the element at the iterator goes, the iterator then stands
  at the element that followed it.\<close>

definition erase :: "nat \<Rightarrow> 'a list \<Rightarrow> 'a list" where
  "erase it xs = take it xs @ drop (Suc it) xs"

text \<open>
  The first loop of \<^verbatim>\<open>notify\<close>, with the iterator as an index into \<^verbatim>\<open>m_listeners\<close>:
  \<^verbatim>\<open>
  while (it != m_listeners.end()) {
      if (auto listener = it->lock()) { listener->on_config_change(opt_key, value); ++it; }
      else { it = m_listeners.erase(it); }
  }\<close>
  The invocations made so far are threaded through. The listener objects are external:
  an invocation is taken to return normally and to leave the bus and the heap alone.
\<close>

function notify_listeners ::
  "(nat \<Rightarrow> bool) \<Rightarrow> string \<Rightarrow> 'r any \<Rightarrow> nat \<Rightarrow> weak_listener list \<Rightarrow> 'r bus_call list
    \<Rightarrow> weak_listener list \<times> 'r bus_call list" where
  "notify_listeners alive opt_key val it listeners calls =
     (if it < length listeners then
        (case lock alive (listeners ! it) of
           Some listener \<Rightarrow>
             notify_listeners alive opt_key val (Suc it) listeners
               (calls @ [Listener_call listener opt_key val])
         | None \<Rightarrow>
             notify_listeners alive opt_key val it (erase it listeners) calls)
      else (listeners, calls))"
  by pat_completeness auto
termination
  by (relation "measure (\<lambda>(alive, opt_key, val, it, listeners, calls). length listeners - it)")
    (auto simp: erase_def)

text \<open>The second loop: \<^verbatim>\<open>for (auto& callback : m_callbacks) if (callback) callback(opt_key, value);\<close>\<close>

fun notify_callbacks :: "config_callback list \<Rightarrow> string \<Rightarrow> 'r any \<Rightarrow> 'r bus_call list" where
  "notify_callbacks [] opt_key val = []"
| "notify_callbacks (callback # callbacks) opt_key val =
     (case callback of
        Some f \<Rightarrow> Callback_call f opt_key val # notify_callbacks callbacks opt_key val
      | None \<Rightarrow> notify_callbacks callbacks opt_key val)"

text \<open>\<^verbatim>\<open>notify\<close> returns the bus as it leaves it and the invocations it made, in order.
  The body does not read \<^verbatim>\<open>m_enabled\<close>.\<close>

definition notify ::
  "(nat \<Rightarrow> bool) \<Rightarrow> string \<Rightarrow> 'r any \<Rightarrow> ConfigChangeDispatcher
    \<Rightarrow> ConfigChangeDispatcher \<times> 'r bus_call list" where
  "notify alive opt_key val b =
     (case notify_listeners alive opt_key val 0 (m_listeners b) [] of
        (listeners, calls) \<Rightarrow>
          (b\<lparr>m_listeners := listeners\<rparr>, calls @ notify_callbacks (m_callbacks b) opt_key val))"

section \<open>The MQTT config publisher (slic3r/Network/MqttConfigPublisher.hpp, .cpp)\<close>

subsection \<open>Text output\<close>

text \<open>\<^verbatim>\<open>std::to_string\<close> of a \<^verbatim>\<open>size_t\<close> and \<^verbatim>\<open>operator<<\<close> of an integer: decimal digits.\<close>

definition digit_char :: "nat \<Rightarrow> char" where
  "digit_char d = ''0123456789'' ! (d mod 10)"

fun show_nat :: "nat \<Rightarrow> string" where
  "show_nat n = (if n < 10 then [digit_char n] else show_nat (n div 10) @ [digit_char (n mod 10)])"

definition show_int :: "int \<Rightarrow> string" where
  "show_int i = (if i < 0 then CHR ''-'' # show_nat (nat (- i)) else show_nat (nat i))"

text \<open>A string between double quotes.\<close>

definition quoted :: "string \<Rightarrow> string" where
  "quoted s = CHR 0x22 # s @ [CHR 0x22]"

text \<open>
  \<^verbatim>\<open>json_escape\<close> of MqttConfigPublisher.cpp: a backslash goes before the double quote
  and the backslash; backspace, form feed, newline, carriage return and tab become
  \<^verbatim>\<open>\b \f \n \r \t\<close>; every other character is copied.
\<close>

definition json_escape_char :: "char \<Rightarrow> string" where
  "json_escape_char c =
     (if c = CHR 0x22 then [CHR 0x5C, CHR 0x22]
      else if c = CHR 0x5C then [CHR 0x5C, CHR 0x5C]
      else if c = CHR 0x08 then [CHR 0x5C, CHR ''b'']
      else if c = CHR 0x0C then [CHR 0x5C, CHR ''f'']
      else if c = CHR 0x0A then [CHR 0x5C, CHR ''n'']
      else if c = CHR 0x0D then [CHR 0x5C, CHR ''r'']
      else if c = CHR 0x09 then [CHR 0x5C, CHR ''t'']
      else [c])"

definition json_escape :: "string \<Rightarrow> string" where
  "json_escape s = concat (map json_escape_char s)"

text \<open>
  The JSON text that \<^verbatim>\<open>serialize_value\<close> streams out, as the document it denotes:
  the members of an object in the order they are written. \<open>render_json\<close> is the text
  itself. Strings are written through \<^verbatim>\<open>json_escape\<close> between quotes, integers in
  decimal, and a floating-point number by \<^verbatim>\<open>operator<<\<close> at precision 6, which is not
  modelled and is a parameter.
\<close>

datatype 'r json =
    J_null
  | J_bool bool
  | J_int int
  | J_double 'r
  | J_string string
  | J_array "'r json list"
  | J_object "(string \<times> 'r json) list"

fun comma_separated :: "string list \<Rightarrow> string" where
  "comma_separated [] = []"
| "comma_separated [x] = x"
| "comma_separated (x # y # ys) = x @ '','' @ comma_separated (y # ys)"

fun render_json :: "('r \<Rightarrow> string) \<Rightarrow> 'r json \<Rightarrow> string" where
  "render_json sd J_null = ''null''"
| "render_json sd (J_bool b) = (if b then ''true'' else ''false'')"
| "render_json sd (J_int i) = show_int i"
| "render_json sd (J_double r) = sd r"
| "render_json sd (J_string s) = quoted (json_escape s)"
| "render_json sd (J_array xs) = ''['' @ comma_separated (map (render_json sd) xs) @ '']''"
| "render_json sd (J_object members) =
     ''{'' @ comma_separated (map (\<lambda>m. quoted (fst m) @ '':'' @ render_json sd (snd m)) members) @ ''}''"

subsection \<open>Consumed interfaces\<close>

text \<open>
  Modelled from the spec: \<^verbatim>\<open>ConfigOptionDef\<close>, the option metadata that the schema registry
  \<^verbatim>\<open>print_config_def.get(opt_key)\<close> returns, declared in \<^verbatim>\<open>libslic3r/Config.hpp\<close>, which is
  not among the sources: label, category, tooltip, unit text (\<^verbatim>\<open>sidetext\<close>), numeric
  \<^verbatim>\<open>min\<close> and \<^verbatim>\<open>max\<close>, an enum key-to-int map behind a pointer (\<open>None\<close> when null),
  enum values and enum labels. These are the members \<^verbatim>\<open>serialize_value\<close> reads.
\<close>

record 'r ConfigOptionDef =
  label :: string
  category :: string
  tooltip :: string
  sidetext :: string
  min_bound :: 'r
  max_bound :: 'r
  enum_keys_map :: "(string \<times> int) list option"
  enum_values :: "string list"
  enum_labels :: "string list"

text \<open>One call of \<^verbatim>\<open>mosquitto_publish(mosq, nullptr, topic, payloadlen, payload, qos, retain)\<close>.\<close>

record mosquitto_publish_call =
  mosq :: nat
  topic :: string
  payloadlen :: int
  payload :: string
  qos :: int
  retain :: bool

definition MOSQ_ERR_SUCCESS :: int where
  "MOSQ_ERR_SUCCESS = 0"

text \<open>
  What the publisher takes from outside: the return code of the MQTT library for a
  publish call, the schema registry \<^verbatim>\<open>print_config_def\<close>, the text \<^verbatim>\<open>operator<<\<close> gives
  a floating-point number, and the values that \<^verbatim>\<open>INT_MIN\<close>, \<^verbatim>\<open>-FLT_MAX\<close>, \<^verbatim>\<open>INT_MAX\<close> and
  \<^verbatim>\<open>FLT_MAX\<close> have in the type of \<^verbatim>\<open>min\<close> and \<^verbatim>\<open>max\<close>.
\<close>

record 'r extern =
  mosquitto_publish :: "mosquitto_publish_call \<Rightarrow> int"
  print_config_def :: "string \<Rightarrow> 'r ConfigOptionDef option"
  stream_double :: "'r \<Rightarrow> string"
  INT_MIN :: 'r
  NEG_FLT_MAX :: 'r
  INT_MAX :: 'r
  FLT_MAX :: 'r

subsection \<open>The publisher object\<close>

record ConfigTopicInfo =
  page :: string
  group :: string

text \<open>\<^verbatim>\<open>m_mosq\<close> is the client handle, \<open>None\<close> when \<^verbatim>\<open>nullptr\<close>.\<close>

record MqttConfigPublisher =
  m_broker_host :: string
  m_broker_port :: int
  m_client_id :: string
  m_topic_prefix :: string
  m_mosq :: "nat option"
  m_connected :: bool
  m_initialized :: bool
  m_topic_map :: "string \<rightharpoonup> ConfigTopicInfo"

subsection \<open>The routing table (namespace ConfigTopics, \<^verbatim>\<open>init_topic_map\<close>)\<close>

text \<open>The \<^verbatim>\<open>PAGE\<close> and \<^verbatim>\<open>GROUP\<close> constants of MqttConfigPublisher.hpp.\<close>

definition Quality_PAGE :: string where
  "Quality_PAGE = ''quality''"

definition Quality_LayerHeight_GROUP :: string where
  "Quality_LayerHeight_GROUP = ''layer_height''"

definition Quality_LineWidth_GROUP :: string where
  "Quality_LineWidth_GROUP = ''line_width''"

definition Quality_Seam_GROUP :: string where
  "Quality_Seam_GROUP = ''seam''"

definition Quality_Precision_GROUP :: string where
  "Quality_Precision_GROUP = ''precision''"

definition Quality_Ironing_GROUP :: string where
  "Quality_Ironing_GROUP = ''ironing''"

definition Quality_WallGenerator_GROUP :: string where
  "Quality_WallGenerator_GROUP = ''wall_generator''"

definition Quality_Advanced_GROUP :: string where
  "Quality_Advanced_GROUP = ''advanced''"

definition Strength_PAGE :: string where
  "Strength_PAGE = ''strength''"

definition Strength_Walls_GROUP :: string where
  "Strength_Walls_GROUP = ''walls''"

definition Strength_TopBottomShells_GROUP :: string where
  "Strength_TopBottomShells_GROUP = ''top_bottom_shells''"

definition Strength_SparseInfill_GROUP :: string where
  "Strength_SparseInfill_GROUP = ''sparse_infill''"

definition Strength_Advanced_GROUP :: string where
  "Strength_Advanced_GROUP = ''advanced''"

definition Speed_PAGE :: string where
  "Speed_PAGE = ''speed''"

definition Speed_InitialLayer_GROUP :: string where
  "Speed_InitialLayer_GROUP = ''initial_layer''"

definition Speed_OtherLayers_GROUP :: string where
  "Speed_OtherLayers_GROUP = ''other_layers''"

definition Speed_Travel_GROUP :: string where
  "Speed_Travel_GROUP = ''travel''"

definition Speed_Acceleration_GROUP :: string where
  "Speed_Acceleration_GROUP = ''acceleration''"

definition Speed_Jerk_GROUP :: string where
  "Speed_Jerk_GROUP = ''jerk''"

definition Support_PAGE :: string where
  "Support_PAGE = ''support''"

definition Support_General_GROUP :: string where
  "Support_General_GROUP = ''general''"

definition Support_Raft_GROUP :: string where
  "Support_Raft_GROUP = ''raft''"

definition Support_Filament_GROUP :: string where
  "Support_Filament_GROUP = ''filament''"

definition Support_Advanced_GROUP :: string where
  "Support_Advanced_GROUP = ''advanced''"

definition Support_TreeSupport_GROUP :: string where
  "Support_TreeSupport_GROUP = ''tree_support''"

definition Others_PAGE :: string where
  "Others_PAGE = ''others''"

definition Others_BedAdhesion_GROUP :: string where
  "Others_BedAdhesion_GROUP = ''bed_adhesion''"

definition Others_PrimeTower_GROUP :: string where
  "Others_PrimeTower_GROUP = ''prime_tower''"

definition Others_FlushOptions_GROUP :: string where
  "Others_FlushOptions_GROUP = ''flush_options''"

definition Others_SpecialMode_GROUP :: string where
  "Others_SpecialMode_GROUP = ''special_mode''"

definition Others_Advanced_GROUP :: string where
  "Others_Advanced_GROUP = ''advanced''"

definition Others_GcodeOutput_GROUP :: string where
  "Others_GcodeOutput_GROUP = ''gcode_output''"

text \<open>
  The assignments \<^verbatim>\<open>m_topic_map[key] = {page, group}\<close> of \<^verbatim>\<open>init_topic_map\<close>, in the order
  of the source.
\<close>

definition topic_assignments :: "(string \<times> ConfigTopicInfo) list" where
  "topic_assignments = [
    (''layer_height'', \<lparr>page = Quality_PAGE, group = Quality_LayerHeight_GROUP\<rparr>),
    (''initial_layer_print_height'', \<lparr>page = Quality_PAGE, group = Quality_LayerHeight_GROUP\<rparr>),
    (''line_width'', \<lparr>page = Quality_PAGE, group = Quality_LineWidth_GROUP\<rparr>),
    (''initial_layer_line_width'', \<lparr>page = Quality_PAGE, group = Quality_LineWidth_GROUP\<rparr>),
    (''outer_wall_line_width'', \<lparr>page = Quality_PAGE, group = Quality_LineWidth_GROUP\<rparr>),
    (''inner_wall_line_width'', \<lparr>page = Quality_PAGE, group = Quality_LineWidth_GROUP\<rparr>),
    (''top_surface_line_width'', \<lparr>page = Quality_PAGE, group = Quality_LineWidth_GROUP\<rparr>),
    (''sparse_infill_line_width'', \<lparr>page = Quality_PAGE, group = Quality_LineWidth_GROUP\<rparr>),
    (''internal_solid_infill_line_width'', \<lparr>page = Quality_PAGE, group = Quality_LineWidth_GROUP\<rparr>),
    (''support_line_width'', \<lparr>page = Quality_PAGE, group = Quality_LineWidth_GROUP\<rparr>),
    (''seam_position'', \<lparr>page = Quality_PAGE, group = Quality_Seam_GROUP\<rparr>),
    (''seam_placement_away_from_overhangs'', \<lparr>page = Quality_PAGE, group = Quality_Seam_GROUP\<rparr>),
    (''seam_gap'', \<lparr>page = Quality_PAGE, group = Quality_Seam_GROUP\<rparr>),
    (''seam_slope_conditional'', \<lparr>page = Quality_PAGE, group = Quality_Seam_GROUP\<rparr>),
    (''scarf_angle_threshold'', \<lparr>page = Quality_PAGE, group = Quality_Seam_GROUP\<rparr>),
    (''seam_slope_entire_loop'', \<lparr>page = Quality_PAGE, group = Quality_Seam_GROUP\<rparr>),
    (''seam_slope_steps'', \<lparr>page = Quality_PAGE, group = Quality_Seam_GROUP\<rparr>),
    (''seam_slope_inner_walls'', \<lparr>page = Quality_PAGE, group = Quality_Seam_GROUP\<rparr>),
    (''override_filament_scarf_seam_setting'', \<lparr>page = Quality_PAGE, group = Quality_Seam_GROUP\<rparr>),
    (''seam_slope_type'', \<lparr>page = Quality_PAGE, group = Quality_Seam_GROUP\<rparr>),
    (''seam_slope_start_height'', \<lparr>page = Quality_PAGE, group = Quality_Seam_GROUP\<rparr>),
    (''seam_slope_gap'', \<lparr>page = Quality_PAGE, group = Quality_Seam_GROUP\<rparr>),
    (''seam_slope_min_length'', \<lparr>page = Quality_PAGE, group = Quality_Seam_GROUP\<rparr>),
    (''wipe_speed'', \<lparr>page = Quality_PAGE, group = Quality_Seam_GROUP\<rparr>),
    (''role_base_wipe_speed'', \<lparr>page = Quality_PAGE, group = Quality_Seam_GROUP\<rparr>),
    (''slice_closing_radius'', \<lparr>page = Quality_PAGE, group = Quality_Precision_GROUP\<rparr>),
    (''resolution'', \<lparr>page = Quality_PAGE, group = Quality_Precision_GROUP\<rparr>),
    (''enable_arc_fitting'', \<lparr>page = Quality_PAGE, group = Quality_Precision_GROUP\<rparr>),
    (''xy_hole_compensation'', \<lparr>page = Quality_PAGE, group = Quality_Precision_GROUP\<rparr>),
    (''xy_contour_compensation'', \<lparr>page = Quality_PAGE, group = Quality_Precision_GROUP\<rparr>),
    (''enable_circle_compensation'', \<lparr>page = Quality_PAGE, group = Quality_Precision_GROUP\<rparr>),
    (''circle_compensation_manual_offset'', \<lparr>page = Quality_PAGE, group = Quality_Precision_GROUP\<rparr>),
    (''elefant_foot_compensation'', \<lparr>page = Quality_PAGE, group = Quality_Precision_GROUP\<rparr>),
    (''precise_outer_wall'', \<lparr>page = Quality_PAGE, group = Quality_Precision_GROUP\<rparr>),
    (''precise_z_height'', \<lparr>page = Quality_PAGE, group = Quality_Precision_GROUP\<rparr>),
    (''ironing_type'', \<lparr>page = Quality_PAGE, group = Quality_Ironing_GROUP\<rparr>),
    (''ironing_pattern'', \<lparr>page = Quality_PAGE, group = Quality_Ironing_GROUP\<rparr>),
    (''ironing_speed'', \<lparr>page = Quality_PAGE, group = Quality_Ironing_GROUP\<rparr>),
    (''ironing_flow'', \<lparr>page = Quality_PAGE, group = Quality_Ironing_GROUP\<rparr>),
    (''ironing_spacing'', \<lparr>page = Quality_PAGE, group = Quality_Ironing_GROUP\<rparr>),
    (''ironing_inset'', \<lparr>page = Quality_PAGE, group = Quality_Ironing_GROUP\<rparr>),
    (''ironing_direction'', \<lparr>page = Quality_PAGE, group = Quality_Ironing_GROUP\<rparr>),
    (''wall_generator'', \<lparr>page = Quality_PAGE, group = Quality_WallGenerator_GROUP\<rparr>),
    (''wall_transition_angle'', \<lparr>page = Quality_PAGE, group = Quality_WallGenerator_GROUP\<rparr>),
    (''wall_transition_filter_deviation'', \<lparr>page = Quality_PAGE, group = Quality_WallGenerator_GROUP\<rparr>),
    (''wall_transition_length'', \<lparr>page = Quality_PAGE, group = Quality_WallGenerator_GROUP\<rparr>),
    (''wall_distribution_count'', \<lparr>page = Quality_PAGE, group = Quality_WallGenerator_GROUP\<rparr>),
    (''min_bead_width'', \<lparr>page = Quality_PAGE, group = Quality_WallGenerator_GROUP\<rparr>),
    (''min_feature_size'', \<lparr>page = Quality_PAGE, group = Quality_WallGenerator_GROUP\<rparr>),
    (''wall_sequence'', \<lparr>page = Quality_PAGE, group = Quality_Advanced_GROUP\<rparr>),
    (''is_infill_first'', \<lparr>page = Quality_PAGE, group = Quality_Advanced_GROUP\<rparr>),
    (''bridge_flow'', \<lparr>page = Quality_PAGE, group = Quality_Advanced_GROUP\<rparr>),
    (''thick_bridges'', \<lparr>page = Quality_PAGE, group = Quality_Advanced_GROUP\<rparr>),
    (''print_flow_ratio'', \<lparr>page = Quality_PAGE, group = Quality_Advanced_GROUP\<rparr>),
    (''top_solid_infill_flow_ratio'', \<lparr>page = Quality_PAGE, group = Quality_Advanced_GROUP\<rparr>),
    (''initial_layer_flow_ratio'', \<lparr>page = Quality_PAGE, group = Quality_Advanced_GROUP\<rparr>),
    (''top_one_wall_type'', \<lparr>page = Quality_PAGE, group = Quality_Advanced_GROUP\<rparr>),
    (''top_area_threshold'', \<lparr>page = Quality_PAGE, group = Quality_Advanced_GROUP\<rparr>),
    (''only_one_wall_first_layer'', \<lparr>page = Quality_PAGE, group = Quality_Advanced_GROUP\<rparr>),
    (''detect_overhang_wall'', \<lparr>page = Quality_PAGE, group = Quality_Advanced_GROUP\<rparr>),
    (''smooth_speed_discontinuity_area'', \<lparr>page = Quality_PAGE, group = Quality_Advanced_GROUP\<rparr>),
    (''smooth_coefficient'', \<lparr>page = Quality_PAGE, group = Quality_Advanced_GROUP\<rparr>),
    (''reduce_crossing_wall'', \<lparr>page = Quality_PAGE, group = Quality_Advanced_GROUP\<rparr>),
    (''max_travel_detour_distance'', \<lparr>page = Quality_PAGE, group = Quality_Advanced_GROUP\<rparr>),
    (''avoid_crossing_wall_includes_support'', \<lparr>page = Quality_PAGE, group = Quality_Advanced_GROUP\<rparr>),
    (''z_direction_outwall_speed_continuous'', \<lparr>page = Quality_PAGE, group = Quality_Advanced_GROUP\<rparr>),
    (''wall_loops'', \<lparr>page = Strength_PAGE, group = Strength_Walls_GROUP\<rparr>),
    (''embedding_wall_into_infill'', \<lparr>page = Strength_PAGE, group = Strength_Walls_GROUP\<rparr>),
    (''detect_thin_wall'', \<lparr>page = Strength_PAGE, group = Strength_Walls_GROUP\<rparr>),
    (''interface_shells'', \<lparr>page = Strength_PAGE, group = Strength_TopBottomShells_GROUP\<rparr>),
    (''top_surface_pattern'', \<lparr>page = Strength_PAGE, group = Strength_TopBottomShells_GROUP\<rparr>),
    (''top_shell_layers'', \<lparr>page = Strength_PAGE, group = Strength_TopBottomShells_GROUP\<rparr>),
    (''top_shell_thickness'', \<lparr>page = Strength_PAGE, group = Strength_TopBottomShells_GROUP\<rparr>),
    (''top_color_penetration_layers'', \<lparr>page = Strength_PAGE, group = Strength_TopBottomShells_GROUP\<rparr>),
    (''bottom_surface_pattern'', \<lparr>page = Strength_PAGE, group = Strength_TopBottomShells_GROUP\<rparr>),
    (''bottom_shell_layers'', \<lparr>page = Strength_PAGE, group = Strength_TopBottomShells_GROUP\<rparr>),
    (''bottom_shell_thickness'', \<lparr>page = Strength_PAGE, group = Strength_TopBottomShells_GROUP\<rparr>),
    (''bottom_color_penetration_layers'', \<lparr>page = Strength_PAGE, group = Strength_TopBottomShells_GROUP\<rparr>),
    (''infill_instead_top_bottom_surfaces'', \<lparr>page = Strength_PAGE, group = Strength_TopBottomShells_GROUP\<rparr>),
    (''internal_solid_infill_pattern'', \<lparr>page = Strength_PAGE, group = Strength_TopBottomShells_GROUP\<rparr>),
    (''sparse_infill_density'', \<lparr>page = Strength_PAGE, group = Strength_SparseInfill_GROUP\<rparr>),
    (''fill_multiline'', \<lparr>page = Strength_PAGE, group = Strength_SparseInfill_GROUP\<rparr>),
    (''sparse_infill_pattern'', \<lparr>page = Strength_PAGE, group = Strength_SparseInfill_GROUP\<rparr>),
    (''locked_skin_infill_pattern'', \<lparr>page = Strength_PAGE, group = Strength_SparseInfill_GROUP\<rparr>),
    (''skin_infill_density'', \<lparr>page = Strength_PAGE, group = Strength_SparseInfill_GROUP\<rparr>),
    (''locked_skeleton_infill_pattern'', \<lparr>page = Strength_PAGE, group = Strength_SparseInfill_GROUP\<rparr>),
    (''skeleton_infill_density'', \<lparr>page = Strength_PAGE, group = Strength_SparseInfill_GROUP\<rparr>),
    (''infill_lock_depth'', \<lparr>page = Strength_PAGE, group = Strength_SparseInfill_GROUP\<rparr>),
    (''skin_infill_depth'', \<lparr>page = Strength_PAGE, group = Strength_SparseInfill_GROUP\<rparr>),
    (''skin_infill_line_width'', \<lparr>page = Strength_PAGE, group = Strength_SparseInfill_GROUP\<rparr>),
    (''skeleton_infill_line_width'', \<lparr>page = Strength_PAGE, group = Strength_SparseInfill_GROUP\<rparr>),
    (''symmetric_infill_y_axis'', \<lparr>page = Strength_PAGE, group = Strength_SparseInfill_GROUP\<rparr>),
    (''infill_shift_step'', \<lparr>page = Strength_PAGE, group = Strength_SparseInfill_GROUP\<rparr>),
    (''infill_rotate_step'', \<lparr>page = Strength_PAGE, group = Strength_SparseInfill_GROUP\<rparr>),
    (''sparse_infill_anchor'', \<lparr>page = Strength_PAGE, group = Strength_SparseInfill_GROUP\<rparr>),
    (''sparse_infill_anchor_max'', \<lparr>page = Strength_PAGE, group = Strength_SparseInfill_GROUP\<rparr>),
    (''filter_out_gap_fill'', \<lparr>page = Strength_PAGE, group = Strength_SparseInfill_GROUP\<rparr>),
    (''infill_wall_overlap'', \<lparr>page = Strength_PAGE, group = Strength_Advanced_GROUP\<rparr>),
    (''infill_direction'', \<lparr>page = Strength_PAGE, group = Strength_Advanced_GROUP\<rparr>),
    (''bridge_angle'', \<lparr>page = Strength_PAGE, group = Strength_Advanced_GROUP\<rparr>),
    (''minimum_sparse_infill_area'', \<lparr>page = Strength_PAGE, group = Strength_Advanced_GROUP\<rparr>),
    (''infill_combination'', \<lparr>page = Strength_PAGE, group = Strength_Advanced_GROUP\<rparr>),
    (''detect_narrow_internal_solid_infill'', \<lparr>page = Strength_PAGE, group = Strength_Advanced_GROUP\<rparr>),
    (''ensure_vertical_shell_thickness'', \<lparr>page = Strength_PAGE, group = Strength_Advanced_GROUP\<rparr>),
    (''detect_floating_vertical_shell'', \<lparr>page = Strength_PAGE, group = Strength_Advanced_GROUP\<rparr>),
    (''initial_layer_speed'', \<lparr>page = Speed_PAGE, group = Speed_InitialLayer_GROUP\<rparr>),
    (''initial_layer_infill_speed'', \<lparr>page = Speed_PAGE, group = Speed_InitialLayer_GROUP\<rparr>),
    (''outer_wall_speed'', \<lparr>page = Speed_PAGE, group = Speed_OtherLayers_GROUP\<rparr>),
    (''inner_wall_speed'', \<lparr>page = Speed_PAGE, group = Speed_OtherLayers_GROUP\<rparr>),
    (''small_perimeter_speed'', \<lparr>page = Speed_PAGE, group = Speed_OtherLayers_GROUP\<rparr>),
    (''small_perimeter_threshold'', \<lparr>page = Speed_PAGE, group = Speed_OtherLayers_GROUP\<rparr>),
    (''sparse_infill_speed'', \<lparr>page = Speed_PAGE, group = Speed_OtherLayers_GROUP\<rparr>),
    (''internal_solid_infill_speed'', \<lparr>page = Speed_PAGE, group = Speed_OtherLayers_GROUP\<rparr>),
    (''vertical_shell_speed'', \<lparr>page = Speed_PAGE, group = Speed_OtherLayers_GROUP\<rparr>),
    (''top_surface_speed'', \<lparr>page = Speed_PAGE, group = Speed_OtherLayers_GROUP\<rparr>),
    (''enable_overhang_speed'', \<lparr>page = Speed_PAGE, group = Speed_OtherLayers_GROUP\<rparr>),
    (''overhang_1_4_speed'', \<lparr>page = Speed_PAGE, group = Speed_OtherLayers_GROUP\<rparr>),
    (''overhang_2_4_speed'', \<lparr>page = Speed_PAGE, group = Speed_OtherLayers_GROUP\<rparr>),
    (''overhang_3_4_speed'', \<lparr>page = Speed_PAGE, group = Speed_OtherLayers_GROUP\<rparr>),
    (''overhang_4_4_speed'', \<lparr>page = Speed_PAGE, group = Speed_OtherLayers_GROUP\<rparr>),
    (''overhang_totally_speed'', \<lparr>page = Speed_PAGE, group = Speed_OtherLayers_GROUP\<rparr>),
    (''enable_height_slowdown'', \<lparr>page = Speed_PAGE, group = Speed_OtherLayers_GROUP\<rparr>),
    (''slowdown_start_height'', \<lparr>page = Speed_PAGE, group = Speed_OtherLayers_GROUP\<rparr>),
    (''slowdown_start_speed'', \<lparr>page = Speed_PAGE, group = Speed_OtherLayers_GROUP\<rparr>),
    (''slowdown_start_acc'', \<lparr>page = Speed_PAGE, group = Speed_OtherLayers_GROUP\<rparr>),
    (''slowdown_end_height'', \<lparr>page = Speed_PAGE, group = Speed_OtherLayers_GROUP\<rparr>),
    (''slowdown_end_speed'', \<lparr>page = Speed_PAGE, group = Speed_OtherLayers_GROUP\<rparr>),
    (''slowdown_end_acc'', \<lparr>page = Speed_PAGE, group = Speed_OtherLayers_GROUP\<rparr>),
    (''bridge_speed'', \<lparr>page = Speed_PAGE, group = Speed_OtherLayers_GROUP\<rparr>),
    (''gap_infill_speed'', \<lparr>page = Speed_PAGE, group = Speed_OtherLayers_GROUP\<rparr>),
    (''support_speed'', \<lparr>page = Speed_PAGE, group = Speed_OtherLayers_GROUP\<rparr>),
    (''support_interface_speed'', \<lparr>page = Speed_PAGE, group = Speed_OtherLayers_GROUP\<rparr>),
    (''travel_speed'', \<lparr>page = Speed_PAGE, group = Speed_Travel_GROUP\<rparr>),
    (''default_acceleration'', \<lparr>page = Speed_PAGE, group = Speed_Acceleration_GROUP\<rparr>),
    (''travel_acceleration'', \<lparr>page = Speed_PAGE, group = Speed_Acceleration_GROUP\<rparr>),
    (''initial_layer_travel_acceleration'', \<lparr>page = Speed_PAGE, group = Speed_Acceleration_GROUP\<rparr>),
    (''initial_layer_acceleration'', \<lparr>page = Speed_PAGE, group = Speed_Acceleration_GROUP\<rparr>),
    (''outer_wall_acceleration'', \<lparr>page = Speed_PAGE, group = Speed_Acceleration_GROUP\<rparr>),
    (''inner_wall_acceleration'', \<lparr>page = Speed_PAGE, group = Speed_Acceleration_GROUP\<rparr>),
    (''top_surface_acceleration'', \<lparr>page = Speed_PAGE, group = Speed_Acceleration_GROUP\<rparr>),
    (''sparse_infill_acceleration'', \<lparr>page = Speed_PAGE, group = Speed_Acceleration_GROUP\<rparr>),
    (''accel_to_decel_enable'', \<lparr>page = Speed_PAGE, group = Speed_Acceleration_GROUP\<rparr>),
    (''accel_to_decel_factor'', \<lparr>page = Speed_PAGE, group = Speed_Acceleration_GROUP\<rparr>),
    (''default_jerk'', \<lparr>page = Speed_PAGE, group = Speed_Jerk_GROUP\<rparr>),
    (''outer_wall_jerk'', \<lparr>page = Speed_PAGE, group = Speed_Jerk_GROUP\<rparr>),
    (''inner_wall_jerk'', \<lparr>page = Speed_PAGE, group = Speed_Jerk_GROUP\<rparr>),
    (''infill_jerk'', \<lparr>page = Speed_PAGE, group = Speed_Jerk_GROUP\<rparr>),
    (''top_surface_jerk'', \<lparr>page = Speed_PAGE, group = Speed_Jerk_GROUP\<rparr>),
    (''initial_layer_jerk'', \<lparr>page = Speed_PAGE, group = Speed_Jerk_GROUP\<rparr>),
    (''travel_jerk'', \<lparr>page = Speed_PAGE, group = Speed_Jerk_GROUP\<rparr>),
    (''enable_support'', \<lparr>page = Support_PAGE, group = Support_General_GROUP\<rparr>),
    (''support_type'', \<lparr>page = Support_PAGE, group = Support_General_GROUP\<rparr>),
    (''support_style'', \<lparr>page = Support_PAGE, group = Support_General_GROUP\<rparr>),
    (''support_threshold_angle'', \<lparr>page = Support_PAGE, group = Support_General_GROUP\<rparr>),
    (''support_on_build_plate_only'', \<lparr>page = Support_PAGE, group = Support_General_GROUP\<rparr>),
    (''support_critical_regions_only'', \<lparr>page = Support_PAGE, group = Support_General_GROUP\<rparr>),
    (''support_remove_small_overhang'', \<lparr>page = Support_PAGE, group = Support_General_GROUP\<rparr>),
    (''raft_layers'', \<lparr>page = Support_PAGE, group = Support_Raft_GROUP\<rparr>),
    (''raft_contact_distance'', \<lparr>page = Support_PAGE, group = Support_Raft_GROUP\<rparr>),
    (''support_filament'', \<lparr>page = Support_PAGE, group = Support_Filament_GROUP\<rparr>),
    (''support_interface_filament'', \<lparr>page = Support_PAGE, group = Support_Filament_GROUP\<rparr>),
    (''support_interface_not_for_body'', \<lparr>page = Support_PAGE, group = Support_Filament_GROUP\<rparr>),
    (''raft_first_layer_density'', \<lparr>page = Support_PAGE, group = Support_Advanced_GROUP\<rparr>),
    (''raft_first_layer_expansion'', \<lparr>page = Support_PAGE, group = Support_Advanced_GROUP\<rparr>),
    (''tree_support_wall_count'', \<lparr>page = Support_PAGE, group = Support_Advanced_GROUP\<rparr>),
    (''support_top_z_distance'', \<lparr>page = Support_PAGE, group = Support_Advanced_GROUP\<rparr>),
    (''support_bottom_z_distance'', \<lparr>page = Support_PAGE, group = Support_Advanced_GROUP\<rparr>),
    (''support_base_pattern'', \<lparr>page = Support_PAGE, group = Support_Advanced_GROUP\<rparr>),
    (''support_base_pattern_spacing'', \<lparr>page = Support_PAGE, group = Support_Advanced_GROUP\<rparr>),
    (''support_angle'', \<lparr>page = Support_PAGE, group = Support_Advanced_GROUP\<rparr>),
    (''support_interface_top_layers'', \<lparr>page = Support_PAGE, group = Support_Advanced_GROUP\<rparr>),
    (''support_interface_bottom_layers'', \<lparr>page = Support_PAGE, group = Support_Advanced_GROUP\<rparr>),
    (''support_interface_pattern'', \<lparr>page = Support_PAGE, group = Support_Advanced_GROUP\<rparr>),
    (''support_interface_spacing'', \<lparr>page = Support_PAGE, group = Support_Advanced_GROUP\<rparr>),
    (''support_bottom_interface_spacing'', \<lparr>page = Support_PAGE, group = Support_Advanced_GROUP\<rparr>),
    (''support_expansion'', \<lparr>page = Support_PAGE, group = Support_Advanced_GROUP\<rparr>),
    (''support_object_xy_distance'', \<lparr>page = Support_PAGE, group = Support_Advanced_GROUP\<rparr>),
    (''top_z_overrides_xy_distance'', \<lparr>page = Support_PAGE, group = Support_Advanced_GROUP\<rparr>),
    (''support_object_first_layer_gap'', \<lparr>page = Support_PAGE, group = Support_Advanced_GROUP\<rparr>),
    (''bridge_no_support'', \<lparr>page = Support_PAGE, group = Support_Advanced_GROUP\<rparr>),
    (''max_bridge_length'', \<lparr>page = Support_PAGE, group = Support_Advanced_GROUP\<rparr>),
    (''independent_support_layer_height'', \<lparr>page = Support_PAGE, group = Support_Advanced_GROUP\<rparr>),
    (''tree_support_branch_distance'', \<lparr>page = Support_PAGE, group = Support_TreeSupport_GROUP\<rparr>),
    (''tree_support_branch_diameter'', \<lparr>page = Support_PAGE, group = Support_TreeSupport_GROUP\<rparr>),
    (''tree_support_branch_angle'', \<lparr>page = Support_PAGE, group = Support_TreeSupport_GROUP\<rparr>),
    (''tree_support_branch_diameter_angle'', \<lparr>page = Support_PAGE, group = Support_TreeSupport_GROUP\<rparr>),
    (''skirt_loops'', \<lparr>page = Others_PAGE, group = Others_BedAdhesion_GROUP\<rparr>),
    (''skirt_height'', \<lparr>page = Others_PAGE, group = Others_BedAdhesion_GROUP\<rparr>),
    (''skirt_distance'', \<lparr>page = Others_PAGE, group = Others_BedAdhesion_GROUP\<rparr>),
    (''brim_type'', \<lparr>page = Others_PAGE, group = Others_BedAdhesion_GROUP\<rparr>),
    (''brim_width'', \<lparr>page = Others_PAGE, group = Others_BedAdhesion_GROUP\<rparr>),
    (''brim_object_gap'', \<lparr>page = Others_PAGE, group = Others_BedAdhesion_GROUP\<rparr>),
    (''enable_prime_tower'', \<lparr>page = Others_PAGE, group = Others_PrimeTower_GROUP\<rparr>),
    (''prime_tower_skip_points'', \<lparr>page = Others_PAGE, group = Others_PrimeTower_GROUP\<rparr>),
    (''prime_tower_enable_framework'', \<lparr>page = Others_PAGE, group = Others_PrimeTower_GROUP\<rparr>),
    (''prime_tower_width'', \<lparr>page = Others_PAGE, group = Others_PrimeTower_GROUP\<rparr>),
    (''prime_tower_max_speed'', \<lparr>page = Others_PAGE, group = Others_PrimeTower_GROUP\<rparr>),
    (''prime_tower_brim_width'', \<lparr>page = Others_PAGE, group = Others_PrimeTower_GROUP\<rparr>),
    (''prime_tower_infill_gap'', \<lparr>page = Others_PAGE, group = Others_PrimeTower_GROUP\<rparr>),
    (''prime_tower_rib_wall'', \<lparr>page = Others_PAGE, group = Others_PrimeTower_GROUP\<rparr>),
    (''prime_tower_extra_rib_length'', \<lparr>page = Others_PAGE, group = Others_PrimeTower_GROUP\<rparr>),
    (''prime_tower_rib_width'', \<lparr>page = Others_PAGE, group = Others_PrimeTower_GROUP\<rparr>),
    (''prime_tower_fillet_wall'', \<lparr>page = Others_PAGE, group = Others_PrimeTower_GROUP\<rparr>),
    (''flush_into_infill'', \<lparr>page = Others_PAGE, group = Others_FlushOptions_GROUP\<rparr>),
    (''flush_into_objects'', \<lparr>page = Others_PAGE, group = Others_FlushOptions_GROUP\<rparr>),
    (''flush_into_support'', \<lparr>page = Others_PAGE, group = Others_FlushOptions_GROUP\<rparr>),
    (''slicing_mode'', \<lparr>page = Others_PAGE, group = Others_SpecialMode_GROUP\<rparr>),
    (''print_sequence'', \<lparr>page = Others_PAGE, group = Others_SpecialMode_GROUP\<rparr>),
    (''spiral_mode'', \<lparr>page = Others_PAGE, group = Others_SpecialMode_GROUP\<rparr>),
    (''spiral_mode_smooth'', \<lparr>page = Others_PAGE, group = Others_SpecialMode_GROUP\<rparr>),
    (''spiral_mode_max_xy_smoothing'', \<lparr>page = Others_PAGE, group = Others_SpecialMode_GROUP\<rparr>),
    (''timelapse_type'', \<lparr>page = Others_PAGE, group = Others_SpecialMode_GROUP\<rparr>),
    (''fuzzy_skin'', \<lparr>page = Others_PAGE, group = Others_SpecialMode_GROUP\<rparr>),
    (''fuzzy_skin_point_distance'', \<lparr>page = Others_PAGE, group = Others_SpecialMode_GROUP\<rparr>),
    (''fuzzy_skin_thickness'', \<lparr>page = Others_PAGE, group = Others_SpecialMode_GROUP\<rparr>),
    (''enable_wrapping_detection'', \<lparr>page = Others_PAGE, group = Others_Advanced_GROUP\<rparr>),
    (''interlocking_beam'', \<lparr>page = Others_PAGE, group = Others_Advanced_GROUP\<rparr>),
    (''mmu_segmented_region_interlocking_depth'', \<lparr>page = Others_PAGE, group = Others_Advanced_GROUP\<rparr>),
    (''interlocking_beam_width'', \<lparr>page = Others_PAGE, group = Others_Advanced_GROUP\<rparr>),
    (''interlocking_orientation'', \<lparr>page = Others_PAGE, group = Others_Advanced_GROUP\<rparr>),
    (''interlocking_beam_layer_count'', \<lparr>page = Others_PAGE, group = Others_Advanced_GROUP\<rparr>),
    (''interlocking_depth'', \<lparr>page = Others_PAGE, group = Others_Advanced_GROUP\<rparr>),
    (''interlocking_boundary_avoidance'', \<lparr>page = Others_PAGE, group = Others_Advanced_GROUP\<rparr>),
    (''sparse_infill_filament'', \<lparr>page = Others_PAGE, group = Others_Advanced_GROUP\<rparr>),
    (''solid_infill_filament'', \<lparr>page = Others_PAGE, group = Others_Advanced_GROUP\<rparr>),
    (''wall_filament'', \<lparr>page = Others_PAGE, group = Others_Advanced_GROUP\<rparr>),
    (''reduce_infill_retraction'', \<lparr>page = Others_PAGE, group = Others_GcodeOutput_GROUP\<rparr>),
    (''gcode_add_line_number'', \<lparr>page = Others_PAGE, group = Others_GcodeOutput_GROUP\<rparr>),
    (''exclude_object'', \<lparr>page = Others_PAGE, group = Others_GcodeOutput_GROUP\<rparr>),
    (''filename_format'', \<lparr>page = Others_PAGE, group = Others_GcodeOutput_GROUP\<rparr>),
    (''post_process'', \<lparr>page = Others_PAGE, group = Others_GcodeOutput_GROUP\<rparr>),
    (''process_notes'', \<lparr>page = Others_PAGE, group = Others_GcodeOutput_GROUP\<rparr>)]"

definition init_topic_map :: "string \<rightharpoonup> ConfigTopicInfo" where
  "init_topic_map = fold (\<lambda>(key, info) m. m(key \<mapsto> info)) topic_assignments Map.empty"

text \<open>\<^verbatim>\<open>create()\<close>: the member initialisers, then \<^verbatim>\<open>init_topic_map()\<close> in the constructor.\<close>

definition create :: MqttConfigPublisher where
  "create = \<lparr>m_broker_host = ''localhost'', m_broker_port = 1883,
     m_client_id = ''corvusprint-config'', m_topic_prefix = ''slicer/'',
     m_mosq = None, m_connected = False, m_initialized = False,
     m_topic_map = init_topic_map\<rparr>"



text \<open>
  \<^verbatim>\<open>connect()\<close>. The library calls are external: \<open>new_client\<close> is what
  \<^verbatim>\<open>mosquitto_new\<close> returns, \<open>connect_rc\<close> and \<open>loop_rc\<close> are the return codes of
  \<^verbatim>\<open>mosquitto_connect\<close> and \<^verbatim>\<open>mosquitto_loop_start\<close>.
\<close>

definition connect ::
  "nat option \<Rightarrow> int \<Rightarrow> int \<Rightarrow> MqttConfigPublisher \<Rightarrow> bool \<times> MqttConfigPublisher" where
  "connect new_client connect_rc loop_rc P =
     (if m_connected P then (True, P)
      else
        let P1 = P\<lparr>m_initialized := True\<rparr>;
            P2 = (if m_mosq P1 = None then P1\<lparr>m_mosq := new_client\<rparr> else P1)
        in if m_mosq P2 = None then (False, P2)
           else if connect_rc \<noteq> MOSQ_ERR_SUCCESS then (False, P2)
           else if loop_rc \<noteq> MOSQ_ERR_SUCCESS then (False, P2)
           else (True, P2))"


definition is_connected :: "MqttConfigPublisher \<Rightarrow> bool" where
  "is_connected P = m_connected P"

definition on_connect_callback :: "int \<Rightarrow> MqttConfigPublisher \<Rightarrow> MqttConfigPublisher" where
  "on_connect_callback rc P = (if rc = 0 then P\<lparr>m_connected := True\<rparr> else P)"


subsection \<open>Topic routing\<close>

definition get_topic :: "MqttConfigPublisher \<Rightarrow> string \<Rightarrow> string" where
  "get_topic P opt_key =
     (case m_topic_map P opt_key of
        Some info \<Rightarrow> ''config/'' @ page info @ ''/'' @ group info @ ''/'' @ opt_key
      | None \<Rightarrow> ''config/unknown/'' @ opt_key)"

subsection \<open>The payload envelope\<close>

text \<open>
  The chain of \<^verbatim>\<open>value.type() == typeid(T)\<close> tests of \<^verbatim>\<open>serialize_value\<close>. Each
  \<^verbatim>\<open>any_cast\<close> follows the test for its own type, so \<^verbatim>\<open>bad_any_cast\<close> is never thrown
  and the handler that writes the type \<^verbatim>\<open>error\<close> is not reached.
\<close>

fun value_members :: "'r any \<Rightarrow> (string \<times> 'r json) list" where
  "value_members (Any_bool b) = [(''value'', J_bool b), (''type'', J_string ''bool'')]"
| "value_members (Any_int i) = [(''value'', J_int i), (''type'', J_string ''int'')]"
| "value_members (Any_double r) = [(''value'', J_double r), (''type'', J_string ''float'')]"
| "value_members (Any_string s) = [(''value'', J_string s), (''type'', J_string ''string'')]"
| "value_members (Any_strings vec) =
     [(''value'', J_array (map J_string vec)), (''type'', J_string ''strings'')]"
| "value_members (Any_doubles vec) =
     [(''value'', J_array (map J_double vec)), (''type'', J_string ''floats'')]"
| "value_members (Any_ints vec) =
     [(''value'', J_array (map J_int vec)), (''type'', J_string ''ints'')]"
| "value_members Any_other = [(''value'', J_null), (''type'', J_string ''unknown'')]"

text \<open>The members written between \<^verbatim>\<open>"meta":{\<close> and \<^verbatim>\<open>}\<close> when \<^verbatim>\<open>opt_def\<close> is not null.\<close>

definition meta_members :: "'r extern \<Rightarrow> 'r ConfigOptionDef \<Rightarrow> (string \<times> 'r json) list" where
  "meta_members X opt_def =
     [(''label'', J_string (label opt_def)),
      (''category'', J_string (category opt_def)),
      (''tooltip'', J_string (tooltip opt_def))]
     @ (if sidetext opt_def \<noteq> [] then [(''unit'', J_string (sidetext opt_def))] else [])
     @ (if min_bound opt_def \<noteq> INT_MIN X \<and> min_bound opt_def \<noteq> NEG_FLT_MAX X
        then [(''min'', J_double (min_bound opt_def))] else [])
     @ (if max_bound opt_def \<noteq> INT_MAX X \<and> max_bound opt_def \<noteq> FLT_MAX X
        then [(''max'', J_double (max_bound opt_def))] else [])
     @ (case enum_keys_map opt_def of
          Some kvs \<Rightarrow>
            if kvs \<noteq> []
            then [(''options'',
                   J_array (map (\<lambda>kv. J_object [(''key'', J_string (fst kv)),
                                                  (''value'', J_int (snd kv))]) kvs))]
            else []
        | None \<Rightarrow> [])
     @ (if enum_values opt_def \<noteq> []
        then [(''enum_values'', J_array (map J_string (enum_values opt_def)))] else [])
     @ (if enum_labels opt_def \<noteq> []
        then [(''enum_labels'', J_array (map J_string (enum_labels opt_def)))] else [])"

definition envelope :: "'r extern \<Rightarrow> string \<Rightarrow> 'r any \<Rightarrow> 'r json" where
  "envelope X opt_key val =
     J_object ([(''key'', J_string opt_key)] @ value_members val
       @ (case print_config_def X opt_key of
            Some opt_def \<Rightarrow> [(''meta'', J_object (meta_members X opt_def))]
          | None \<Rightarrow> []))"

definition serialize_value :: "'r extern \<Rightarrow> string \<Rightarrow> 'r any \<Rightarrow> string" where
  "serialize_value X opt_key val = render_json (stream_double X) (envelope X opt_key val)"

subsection \<open>Publishing\<close>

text \<open>\<^verbatim>\<open>static_cast<int>(payload.size())\<close>: the size reduced to a signed 32-bit integer.\<close>

definition static_cast_int :: "nat \<Rightarrow> int" where
  "static_cast_int n =
     (let m = int n mod 2 ^ 32 in if m < 2 ^ 31 then m else m - 2 ^ 32)"

text \<open>
  \<^verbatim>\<open>publish\<close> returns its boolean result and the calls of \<^verbatim>\<open>mosquitto_publish\<close> it made
  (none or one). The topic argument is the text of \<^verbatim>\<open>full_topic\<close>.
\<close>

definition publish ::
  "'r extern \<Rightarrow> MqttConfigPublisher \<Rightarrow> string \<Rightarrow> string \<Rightarrow> bool
    \<Rightarrow> bool \<times> mosquitto_publish_call list" where
  "publish X P topic_arg payload_arg retained =
     (case m_mosq P of
        None \<Rightarrow> (False, [])
      | Some client \<Rightarrow>
          if \<not> m_connected P then (False, [])
          else
            let full_topic = m_topic_prefix P @ topic_arg;
                call = \<lparr>mosq = client, topic = full_topic,
                         payloadlen = static_cast_int (length payload_arg),
                         payload = payload_arg, qos = 1, retain = retained\<rparr>;
                rc = mosquitto_publish X call
            in (rc = MOSQ_ERR_SUCCESS, [call]))"

definition publish_change ::
  "'r extern \<Rightarrow> MqttConfigPublisher \<Rightarrow> string \<Rightarrow> 'r any \<Rightarrow> mosquitto_publish_call list" where
  "publish_change X P opt_key val =
     (if \<not> m_connected P then []
      else snd (publish X P (get_topic P opt_key) (serialize_value X opt_key val) True))"

definition on_config_change ::
  "'r extern \<Rightarrow> MqttConfigPublisher \<Rightarrow> string \<Rightarrow> 'r any \<Rightarrow> mosquitto_publish_call list" where
  "on_config_change X P opt_key val = publish_change X P opt_key val"

subsection \<open>Preset configurations\<close>

text \<open>
  Modelled from the spec: the typed options of the dynamically typed config store
  (\<^verbatim>\<open>ConfigOptionType\<close> and the option classes of \<^verbatim>\<open>libslic3r/Config.hpp\<close>, which is not among
  the sources). The design names the shapes bool, int, float, string, their sequences and
  float-or-percent, and has unsupported option types skipped. A vector type is the scalar
  type plus \<^verbatim>\<open>coVectorType\<close>; \<^verbatim>\<open>is_vector()\<close> tests that bit. Beside the types named in
  the \<^verbatim>\<open>switch\<close> statements of MqttConfigPublisher.cpp there are those their \<^verbatim>\<open>default\<close>
  branches are for, among them the vector of enums (\<^verbatim>\<open>coEnums\<close>, the type of
  \<^verbatim>\<open>extruder_type\<close> and \<^verbatim>\<open>z_hop_types\<close>) and the vector of floats-or-percents.
\<close>

datatype ConfigOptionType =
    coNone
  | coFloat | coFloats
  | coInt | coInts
  | coString | coStrings
  | coPercent | coPercents
  | coFloatOrPercent | coFloatsOrPercents
  | coPoint | coPoints
  | coPoint3
  | coBool | coBools
  | coEnum | coEnums








subsection \<open>Publishing a printer preset\<close>









section \<open>The HTTP control facade (slic3r/Network/HttpSlicerApi.hpp, .cpp)\<close>




text \<open>
  Modelled from the spec: the constructor \<^verbatim>\<open>PrintBase::SlicingStatus(percent, text)\<close>, declared
  in \<^verbatim>\<open>PrintBase.hpp\<close>, which is not among the sources. It stores its two arguments (the
  facade's "empty status" is \<^verbatim>\<open>SlicingStatus(0, "")\<close>, whose percent is 0); the other
  members take the defaults of its declaration, which the model fixes as no flag, warning
  step -1 and no engine variant.
\<close>

definition make_SlicingStatus :: "int \<Rightarrow> string \<Rightarrow> SlicingStatus" where
  "make_SlicingStatus p t =
     \<lparr>percent = p, status_text = t, flags = 0, warning_step = - 1, engine_variant = False\<rparr>"

text \<open>The member initialisers of \<^verbatim>\<open>SlicingCompletedInfo\<close>.\<close>

definition default_SlicingCompletedInfo :: SlicingCompletedInfo where
  "default_SlicingCompletedInfo =
     \<lparr>status = Finished, error_message = [], error_object_ids = [],
      critical_error = False, invalidate_plater = False\<rparr>"

text \<open>
  Modelled from the spec: the slicing process (\<^verbatim>\<open>BackgroundSlicingProcess\<close>, not among the
  sources), consumed through \<^verbatim>\<open>start()\<close> and \<^verbatim>\<open>stop()\<close>, which return a boolean, and
  \<^verbatim>\<open>reset()\<close>. \<open>'p\<close> is its state; each call leaves a new state.
\<close>

record 'p process_interface =
  process_start :: "'p \<Rightarrow> bool \<times> 'p"
  process_stop :: "'p \<Rightarrow> bool \<times> 'p"
  process_reset :: "'p \<Rightarrow> 'p"

text \<open>The members the status, start, stop and reset routes use. \<^verbatim>\<open>m_process\<close> is a
  pointer, \<open>None\<close> when null; the model keeps the state of the process it points to.\<close>

record 'p HttpSlicerApi =
  m_process :: "'p option"
  m_last_status :: SlicingStatus
  m_last_completed :: SlicingCompletedInfo
  m_has_completed :: bool

definition new_HttpSlicerApi :: "'p option \<Rightarrow> 'p HttpSlicerApi" where
  "new_HttpSlicerApi process =
     \<lparr>m_process = process, m_last_status = make_SlicingStatus 0 [],
      m_last_completed = default_SlicingCompletedInfo, m_has_completed = False\<rparr>"


definition update_completed :: "SlicingCompletedInfo \<Rightarrow> 'p HttpSlicerApi \<Rightarrow> 'p HttpSlicerApi" where
  "update_completed info api = api\<lparr>m_last_completed := info, m_has_completed := True\<rparr>"



text \<open>
  A response as a handler leaves it: \<^verbatim>\<open>res.status\<close> when the handler assigns it (\<open>None\<close>
  when it does not, and the server library answers 200), and the body given to
  \<^verbatim>\<open>set_content\<close>, always as \<^verbatim>\<open>application/json\<close>.
\<close>

record http_response =
  res_status :: "int option"
  res_body :: string

definition no_process_response :: http_response where
  "no_process_response =
     \<lparr>res_status = Some 500,
      res_body = ''{'' @ quoted ''error'' @ '':'' @ quoted ''No process configured'' @ ''}''\<rparr>"


text \<open>\<^verbatim>\<open>POST /api/start\<close>\<close>

definition handle_post_start ::
  "'p process_interface \<Rightarrow> 'p HttpSlicerApi \<Rightarrow> http_response \<times> 'p HttpSlicerApi" where
  "handle_post_start S api =
     (case m_process api of
        None \<Rightarrow> (no_process_response, api)
      | Some p \<Rightarrow>
          (case process_start S p of
             (started, p') \<Rightarrow>
               if started then
                 (\<lparr>res_status = None,
                   res_body = ''{'' @ quoted ''status'' @ '':'' @ quoted ''started'' @ ''}''\<rparr>,
                  api\<lparr>m_process := Some p', m_has_completed := False\<rparr>)
               else
                 (\<lparr>res_status = Some 400,
                   res_body = ''{'' @ quoted ''error'' @ '':''
                     @ quoted ''Could not start (already running or empty)'' @ ''}''\<rparr>,
                  api\<lparr>m_process := Some p'\<rparr>)))"

text \<open>\<^verbatim>\<open>POST /api/stop\<close>\<close>

definition handle_post_stop ::
  "'p process_interface \<Rightarrow> 'p HttpSlicerApi \<Rightarrow> http_response \<times> 'p HttpSlicerApi" where
  "handle_post_stop S api =
     (case m_process api of
        None \<Rightarrow> (no_process_response, api)
      | Some p \<Rightarrow>
          (case process_stop S p of
             (stopped, p') \<Rightarrow>
               if stopped then
                 (\<lparr>res_status = None,
                   res_body = ''{'' @ quoted ''status'' @ '':'' @ quoted ''stopped'' @ ''}''\<rparr>,
                  api\<lparr>m_process := Some p'\<rparr>)
               else
                 (\<lparr>res_status = Some 400,
                   res_body = ''{'' @ quoted ''error'' @ '':''
                     @ quoted ''Could not stop (not running)'' @ ''}''\<rparr>,
                  api\<lparr>m_process := Some p'\<rparr>)))"


section \<open>Sample collaborators\<close>

text \<open>
  A schema registry that knows \<^verbatim>\<open>layer_height\<close> (the entry of the comment in
  MqttConfigPublisher.hpp: unit mm, minimum 0, no maximum) and \<^verbatim>\<open>wall_loops\<close> (no bound at
  all), an MQTT library that accepts every publish, and the text of a few numbers. The
  unbounded values are those of \<^verbatim>\<open>climits\<close> and \<^verbatim>\<open>cfloat\<close>.
\<close>

definition sample_layer_height_def :: "real ConfigOptionDef" where
  "sample_layer_height_def =
     \<lparr>label = ''Layer height'', category = ''Quality'', tooltip = ''Slicing height for each layer'',
      sidetext = ''mm'', min_bound = 0, max_bound = 340282346638528859811704183484516925440,
      enum_keys_map = None, enum_values = [], enum_labels = []\<rparr>"

definition sample_wall_loops_def :: "real ConfigOptionDef" where
  "sample_wall_loops_def =
     \<lparr>label = ''Wall loops'', category = ''Strength'', tooltip = ''Number of walls'',
      sidetext = [], min_bound = - 2147483648, max_bound = 2147483647,
      enum_keys_map = None, enum_values = [], enum_labels = []\<rparr>"

definition sample_extern :: "real extern" where
  "sample_extern =
     \<lparr>mosquitto_publish = (\<lambda>call. MOSQ_ERR_SUCCESS),
      print_config_def = (\<lambda>opt_key.
         if opt_key = ''layer_height'' then Some sample_layer_height_def
         else if opt_key = ''wall_loops'' then Some sample_wall_loops_def
         else None),
      stream_double = (\<lambda>r.
         if r = 0 then ''0'' else if r = 1 then ''1'' else if r = 0.2 then ''0.2''
         else if r = 0.4 then ''0.4'' else if r = 0.6 then ''0.6'' else if r = 1.5 then ''1.5''
         else ''2.5''),
      INT_MIN = - 2147483648,
      NEG_FLT_MAX = - 340282346638528859811704183484516925440,
      INT_MAX = 2147483647,
      FLT_MAX = 340282346638528859811704183484516925440\<rparr>"

text \<open>A publisher after \<^verbatim>\<open>create()\<close>, a successful \<^verbatim>\<open>connect()\<close> and the connect callback.\<close>

definition sample_connected :: MqttConfigPublisher where
  "sample_connected = on_connect_callback 0 (snd (connect (Some 1) 0 0 create))"



text \<open>
  A slicing process that is either running or not: \<^verbatim>\<open>start()\<close> is declined while it
  runs, \<^verbatim>\<open>stop()\<close> is declined while it does not.
\<close>

definition sample_process :: "bool process_interface" where
  "sample_process =
     \<lparr>process_start = (\<lambda>running. (\<not> running, True)),
      process_stop = (\<lambda>running. (running, False)),
      process_reset = (\<lambda>running. False)\<rparr>"


section \<open>Properties of the slicing event dispatcher\<close>

lemma dispatch_for_each: "dispatch d c = for_each_sink (m_sinks d) c"
  by (cases c)
    (simp_all add: on_slicing_update_def on_slicing_completed_def on_process_finished_def
      on_export_began_def on_export_finished_def)

lemma for_each_sink_append:
  "for_each_sink (xs @ ys) c = for_each_sink xs c @ for_each_sink ys c"
  by (induction xs) (simp_all split: option.splits)

lemma for_each_sink_installed:
  "for_each_sink sinks c = map (\<lambda>a. (a, c)) (List.map_filter id sinks)"
  by (induction sinks) (simp_all add: List.map_filter_simps split: option.splits)

lemma times_invoked_for_each:
  "times_invoked a (for_each_sink sinks c) = count_list sinks (Some a)"
  by (induction sinks) (simp_all add: times_invoked_def split: option.splits)

lemma count_list_filter_neq:
  "count_list (filter (\<lambda>p. p \<noteq> q) xs) x = (if x = q then 0 else count_list xs x)"
  by (induction xs) simp_all

lemma count_apply_sink_op_other:
  assumes "op \<noteq> Add_sink (Some a)" "op \<noteq> Remove_sink (Some a)" "op \<noteq> Clear_sinks"
  shows "count_list (m_sinks (apply_sink_op op d)) (Some a) = count_list (m_sinks d) (Some a)"
  using assms
  by (cases op)
    (auto simp: add_sink_def remove_sink_def count_list_filter_neq split: option.splits)

lemma count_apply_sink_ops_other:
  assumes "Add_sink (Some a) \<notin> set ops" "Remove_sink (Some a) \<notin> set ops" "Clear_sinks \<notin> set ops"
  shows "count_list (m_sinks (apply_sink_ops ops d)) (Some a) = count_list (m_sinks d) (Some a)"
  using assms unfolding apply_sink_ops_def
proof (induction ops arbitrary: d)
  case Nil
  then show ?case by simp
next
  case (Cons op ops)
  have "count_list (m_sinks (fold apply_sink_op ops (apply_sink_op op d))) (Some a)
        = count_list (m_sinks (apply_sink_op op d)) (Some a)"
    using Cons by simp
  also have "\<dots> = count_list (m_sinks d) (Some a)"
    using Cons.prems by (intro count_apply_sink_op_other) auto
  finally show ?case by simp
qed

lemma count_apply_sink_op_no_add:
  assumes "op \<noteq> Add_sink (Some a)" "count_list (m_sinks d) (Some a) = 0"
  shows "count_list (m_sinks (apply_sink_op op d)) (Some a) = 0"
  using assms
  by (cases op)
    (auto simp: add_sink_def remove_sink_def clear_sinks_def count_list_filter_neq
      split: option.splits)

lemma count_apply_sink_ops_no_add:
  assumes "Add_sink (Some a) \<notin> set ops" "count_list (m_sinks d) (Some a) = 0"
  shows "count_list (m_sinks (apply_sink_ops ops d)) (Some a) = 0"
  using assms unfolding apply_sink_ops_def
proof (induction ops arbitrary: d)
  case Nil
  then show ?case by simp
next
  case (Cons op ops)
  have "count_list (m_sinks (apply_sink_op op d)) (Some a) = 0"
    using Cons.prems by (intro count_apply_sink_op_no_add) auto
  then show ?case using Cons by simp
qed

lemma no_null_apply_sink_op:
  assumes "None \<notin> set (m_sinks d)"
  shows "None \<notin> set (m_sinks (apply_sink_op op d))"
  using assms
  by (cases op) (auto simp: add_sink_def remove_sink_def clear_sinks_def split: option.splits)

lemma no_null_apply_sink_ops:
  assumes "None \<notin> set (m_sinks d)"
  shows "None \<notin> set (m_sinks (apply_sink_ops ops d))"
  using assms unfolding apply_sink_ops_def
  by (induction ops arbitrary: d) (simp_all add: no_null_apply_sink_op)

lemma for_each_sink_no_null:
  assumes "None \<notin> set sinks"
  shows "for_each_sink sinks c = for_each_sink_unguarded sinks c"
  using assms
proof (induction sinks)
  case Nil
  then show ?case by (simp add: for_each_sink_unguarded_def)
next
  case (Cons sink sinks)
  then obtain a where "sink = Some a" by (cases sink) auto
  with Cons show ?case by (simp add: for_each_sink_unguarded_def)
qed

text \<open>
  Claim C1 as stated fails: a sink installed by two \<^verbatim>\<open>add_sink\<close> calls holds two
  entries of \<^verbatim>\<open>m_sinks\<close>, and one dispatched event invokes it twice, not once.
\<close>

theorem fan_out_twice_counterexample:
  "times_invoked 7 (dispatch (add_sink (Some 7) (add_sink (Some 7) new_dispatcher)) Export_began) = 2
   \<and> times_invoked 7 (dispatch (add_sink (Some 7) (add_sink (Some 7) new_dispatcher)) Export_began) \<noteq> 1"
  by (simp add: times_invoked_def on_export_began_def add_sink_def new_dispatcher_def)

text \<open>
  Claim C1, amended. Dispatching an event invokes the corresponding method once for every
  installed reference, in the order of \<^verbatim>\<open>m_sinks\<close>, which is installation order
  (\<^verbatim>\<open>add_sink\<close> appends at the end, \<^verbatim>\<open>remove_sink\<close> keeps the order of what stays). A sink
  installed by \<^verbatim>\<open>add_sink\<close> on a dispatcher
  that held \<open>n\<close> references to it is invoked \<open>n + 1\<close> times by every later event, for as
  long as no further \<^verbatim>\<open>add_sink\<close>, \<^verbatim>\<open>remove_sink\<close> of it or \<^verbatim>\<open>clear_sinks\<close> happens: exactly
  once when it was not installed before. After \<^verbatim>\<open>remove_sink(s)\<close> or \<^verbatim>\<open>clear_sinks()\<close> the
  sink receives no event until it is added again.
\<close>

theorem dispatcher_fan_out:
  assumes "Add_sink (Some a) \<notin> set ops" "Remove_sink (Some a) \<notin> set ops"
    and "Clear_sinks \<notin> set ops" "Add_sink (Some a) \<notin> set ops'"
  shows "dispatch d c = map (\<lambda>b. (b, c)) (List.map_filter id (m_sinks d))
    \<and> m_sinks (add_sink (Some a) d) = m_sinks d @ [Some a]
    \<and> m_sinks (remove_sink q d) = filter (\<lambda>p. p \<noteq> q) (m_sinks d)
    \<and> times_invoked a (dispatch d c) = count_list (m_sinks d) (Some a)
    \<and> times_invoked a (dispatch (apply_sink_ops ops (add_sink (Some a) d)) c)
        = Suc (count_list (m_sinks d) (Some a))
    \<and> times_invoked a (dispatch (apply_sink_ops ops' (remove_sink (Some a) d)) c) = 0
    \<and> times_invoked a (dispatch (apply_sink_ops ops' (clear_sinks d)) c) = 0"
proof -
  have order: "dispatch d c = map (\<lambda>b. (b, c)) (List.map_filter id (m_sinks d))"
    by (simp add: dispatch_for_each for_each_sink_installed)
  have appended: "m_sinks (add_sink (Some a) d) = m_sinks d @ [Some a]"
    by (simp add: add_sink_def)
  have kept: "m_sinks (remove_sink q d) = filter (\<lambda>p. p \<noteq> q) (m_sinks d)"
    by (simp add: remove_sink_def)
  have now: "times_invoked a (dispatch d c) = count_list (m_sinks d) (Some a)"
    by (simp add: dispatch_for_each times_invoked_for_each)
  have "count_list (m_sinks (apply_sink_ops ops (add_sink (Some a) d))) (Some a)
        = count_list (m_sinks (add_sink (Some a) d)) (Some a)"
    using assms(1-3) by (rule count_apply_sink_ops_other)
  then have added: "times_invoked a (dispatch (apply_sink_ops ops (add_sink (Some a) d)) c)
        = Suc (count_list (m_sinks d) (Some a))"
    by (simp add: dispatch_for_each times_invoked_for_each appended)
  have "count_list (m_sinks (remove_sink (Some a) d)) (Some a) = 0"
    by (simp add: remove_sink_def count_list_filter_neq)
  with assms(4) have "count_list (m_sinks (apply_sink_ops ops' (remove_sink (Some a) d))) (Some a) = 0"
    by (rule count_apply_sink_ops_no_add)
  then have removed: "times_invoked a (dispatch (apply_sink_ops ops' (remove_sink (Some a) d)) c) = 0"
    by (simp add: dispatch_for_each times_invoked_for_each)
  have "count_list (m_sinks (clear_sinks d)) (Some a) = 0"
    by (simp add: clear_sinks_def)
  with assms(4) have "count_list (m_sinks (apply_sink_ops ops' (clear_sinks d))) (Some a) = 0"
    by (rule count_apply_sink_ops_no_add)
  then have cleared: "times_invoked a (dispatch (apply_sink_ops ops' (clear_sinks d)) c) = 0"
    by (simp add: dispatch_for_each times_invoked_for_each)
  from order appended kept now added removed cleared show ?thesis by blast
qed

theorem dispatcher_fan_out_witness:
  "Add_sink (Some 7) \<notin> set [Add_sink (Some 3), Remove_sink (Some 5)]
   \<and> Remove_sink (Some 7) \<notin> set [Add_sink (Some 3), Remove_sink (Some 5)]
   \<and> Clear_sinks \<notin> set [Add_sink (Some 3), Remove_sink (Some 5)]
   \<and> Add_sink (Some 7) \<notin> set [Add_sink (Some 3)]
   \<and> dispatch (add_sink (Some 5) new_dispatcher) Export_began = [(5, Export_began)]
   \<and> times_invoked 7
        (dispatch (apply_sink_ops [Add_sink (Some 3), Remove_sink (Some 5)]
           (add_sink (Some 7) (add_sink (Some 5) new_dispatcher))) (Slicing_completed 9)) = 1
   \<and> times_invoked 7
        (dispatch (apply_sink_ops [Add_sink (Some 3)]
           (remove_sink (Some 7) (add_sink (Some 5) new_dispatcher))) (Slicing_completed 9)) = 0"
  using dispatcher_fan_out [where a = 7 and ops = "[Add_sink (Some 3), Remove_sink (Some 5)]"
      and ops' = "[Add_sink (Some 3)]" and d = "add_sink (Some 5) new_dispatcher"
      and c = "Slicing_completed 9"]
    dispatcher_fan_out [where a = 7 and ops = "[Add_sink (Some 3), Remove_sink (Some 5)]"
      and ops' = "[Add_sink (Some 3)]" and d = "add_sink (Some 5) new_dispatcher"
      and c = Export_began]
  by (simp add: add_sink_def new_dispatcher_def List.map_filter_simps)

text \<open>
  Claim C10. After any sequence of \<^verbatim>\<open>add_sink\<close>, \<^verbatim>\<open>remove_sink\<close> and \<^verbatim>\<open>clear_sinks\<close> calls
  on a freshly constructed dispatcher, \<^verbatim>\<open>m_sinks\<close> holds no null pointer, so the guard
  \<^verbatim>\<open>if (sink)\<close> of the five event methods is never false: each of them does what the
  loop without the guard does.
\<close>

theorem sink_list_never_null:
  "None \<notin> set (m_sinks (apply_sink_ops ops new_dispatcher))
   \<and> dispatch (apply_sink_ops ops new_dispatcher) c
       = for_each_sink_unguarded (m_sinks (apply_sink_ops ops new_dispatcher)) c"
proof -
  have "None \<notin> set (m_sinks new_dispatcher)"
    by (simp add: new_dispatcher_def)
  then have inv: "None \<notin> set (m_sinks (apply_sink_ops ops new_dispatcher))"
    by (rule no_null_apply_sink_ops)
  then show ?thesis
    by (simp add: dispatch_for_each for_each_sink_no_null)
qed

theorem sink_list_never_null_witness:
  "None \<notin> set (m_sinks (apply_sink_ops [Add_sink None, Add_sink (Some 2), Remove_sink None] new_dispatcher))
   \<and> dispatch (apply_sink_ops [Add_sink None, Add_sink (Some 2), Remove_sink None] new_dispatcher) Export_began
       = [(2, Export_began)]"
  using sink_list_never_null [of "[Add_sink None, Add_sink (Some 2), Remove_sink None]" Export_began]
  by (simp add: apply_sink_ops_def add_sink_def remove_sink_def new_dispatcher_def
      for_each_sink_unguarded_def)

section \<open>Properties of the config change bus\<close>

declare notify_listeners.simps [simp del]

lemma notify_listeners_sweep:
  "notify_listeners alive opt_key val it listeners calls =
     (take it listeners @ filter (\<lambda>w. \<not> expired alive w) (drop it listeners),
      calls @ map (\<lambda>l. Listener_call l opt_key val) (List.map_filter (lock alive) (drop it listeners)))"
proof (induction alive opt_key val it listeners calls rule: notify_listeners.induct)
  case (1 alive opt_key val it listeners calls)
  show ?case
  proof (cases "it < length listeners")
    case False
    then show ?thesis
      by (simp add: List.map_filter_simps notify_listeners.simps [of _ _ _ it listeners])
  next
    case True
    note in_range = True
    note unfold = notify_listeners.simps [of alive opt_key val it listeners calls]
    have split_at: "drop it listeners = listeners ! it # drop (Suc it) listeners"
      using in_range by (simp add: Cons_nth_drop_Suc)
    show ?thesis
    proof (cases "lock alive (listeners ! it)")
      case None
      have "take it (erase it listeners) = take it listeners"
        using in_range by (simp add: erase_def)
      moreover have "drop it (erase it listeners) = drop (Suc it) listeners"
        using in_range by (simp add: erase_def)
      ultimately show ?thesis
        using "1.IH"(1) [OF in_range None] in_range None split_at
        by (simp add: unfold expired_def List.map_filter_simps)
    next
      case (Some listener)
      have "take (Suc it) listeners = take it listeners @ [listeners ! it]"
        using in_range by (simp add: take_Suc_conv_app_nth)
      then show ?thesis
        using "1.IH"(2) [OF in_range Some] in_range Some split_at
        by (simp add: unfold expired_def List.map_filter_simps)
    qed
  qed
qed

lemma notify_callbacks_installed:
  "notify_callbacks callbacks opt_key val =
     map (\<lambda>f. Callback_call f opt_key val) (List.map_filter id callbacks)"
  by (induction callbacks) (simp_all add: List.map_filter_simps split: option.splits)

lemma notify_result:
  "notify alive opt_key val b =
     (b\<lparr>m_listeners := filter (\<lambda>w. \<not> expired alive w) (m_listeners b)\<rparr>,
      map (\<lambda>l. Listener_call l opt_key val) (List.map_filter (lock alive) (m_listeners b))
      @ map (\<lambda>f. Callback_call f opt_key val) (List.map_filter id (m_callbacks b)))"
  by (simp add: notify_def notify_listeners_sweep notify_callbacks_installed)

text \<open>
  Claim C4 does not hold of the code: \<^verbatim>\<open>notify\<close> never reads \<^verbatim>\<open>m_enabled\<close>. On a bus
  disabled by \<^verbatim>\<open>set_enabled(false)\<close> that holds one live listener and one callback it
  invokes both.
\<close>

theorem notify_when_disabled:
  "is_enabled (set_enabled False (add_callback (Some 1) (add_listener (Some 0) new_bus))) = False
   \<and> snd (notify (\<lambda>a. True) ''layer_height'' (Any_double (0.2 :: real))
        (set_enabled False (add_callback (Some 1) (add_listener (Some 0) new_bus))))
     = [Listener_call 0 ''layer_height'' (Any_double 0.2),
        Callback_call 1 ''layer_height'' (Any_double 0.2)]"
  by (simp add: notify_result is_enabled_def set_enabled_def add_callback_def add_listener_def
      new_bus_def lock_def List.map_filter_simps)



section \<open>Properties of the MQTT config publisher\<close>

declare show_nat.simps [simp del]

lemma sample_connected_fields:
  "m_mosq sample_connected = Some 1" "m_connected sample_connected"
  "m_topic_prefix sample_connected = ''slicer/''" "m_topic_map sample_connected = init_topic_map"
  by (simp_all add: sample_connected_def on_connect_callback_def connect_def create_def
      MOSQ_ERR_SUCCESS_def Let_def)

text \<open>
  Claim C6. \<^verbatim>\<open>publish\<close> returns false and calls \<^verbatim>\<open>mosquitto_publish\<close> not at all when the
  client handle is null or \<^verbatim>\<open>m_connected\<close> is not set. Otherwise it makes exactly one call,
  with the topic \<^verbatim>\<open>m_topic_prefix + topic\<close>, the payload, QoS 1 and the retained flag, and
  returns whether the library answered \<^verbatim>\<open>MOSQ_ERR_SUCCESS\<close>.
\<close>

theorem publish_when_connected_only:
  "(m_mosq P = None \<or> \<not> m_connected P \<longrightarrow> publish X P t p r = (False, []))
   \<and> (m_mosq P = Some client \<and> m_connected P \<longrightarrow>
        publish X P t p r =
          (mosquitto_publish X
             \<lparr>mosq = client, topic = m_topic_prefix P @ t,
              payloadlen = static_cast_int (length p), payload = p, qos = 1, retain = r\<rparr>
             = MOSQ_ERR_SUCCESS,
           [\<lparr>mosq = client, topic = m_topic_prefix P @ t,
             payloadlen = static_cast_int (length p), payload = p, qos = 1, retain = r\<rparr>]))"
  by (cases "m_mosq P") (simp_all add: publish_def Let_def)

theorem publish_when_connected_only_witness:
  "publish sample_extern create ''config/presets/printer'' ''{}'' True = (False, [])
   \<and> publish sample_extern sample_connected ''config/presets/printer'' ''{}'' True
       = (True, [\<lparr>mosq = 1, topic = ''slicer/config/presets/printer'', payloadlen = 2,
                  payload = ''{}'', qos = 1, retain = True\<rparr>])"
  using publish_when_connected_only [where P = create and X = sample_extern
      and t = "''config/presets/printer''" and p = "''{}''" and r = True and client = 1]
    publish_when_connected_only [where P = sample_connected and X = sample_extern
      and t = "''config/presets/printer''" and p = "''{}''" and r = True and client = 1]
  by (simp add: sample_connected_fields create_def sample_extern_def static_cast_int_def)

















section \<open>Properties of publishing a printer preset\<close>











section \<open>Properties of the HTTP control facade\<close>







text \<open>
  Claim C9 as stated fails: when the process declines to start, the answer is 400 and
  the cached completion flag is not cleared. Here the process is running and a completion
  is cached.
\<close>

theorem start_declined_counterexample:
  "fst (process_start sample_process True) = False
   \<and> m_has_completed (update_completed default_SlicingCompletedInfo (new_HttpSlicerApi (Some True)))
   \<and> res_status (fst (handle_post_start sample_process
        (update_completed default_SlicingCompletedInfo (new_HttpSlicerApi (Some True))))) = Some 400
   \<and> m_has_completed (snd (handle_post_start sample_process
        (update_completed default_SlicingCompletedInfo (new_HttpSlicerApi (Some True)))))"
  by (simp add: handle_post_start_def update_completed_def new_HttpSlicerApi_def sample_process_def)

text \<open>
  Claim C9, amended. On a facade that has a process, \<^verbatim>\<open>POST /api/start\<close> calls
  \<^verbatim>\<open>start()\<close> on it. If the process starts, the cached completion flag is cleared and the
  answer is \<^verbatim>\<open>{"status":"started"}\<close>, with no error status. If the process declines, the
  answer has status 400 and the cache is as it was. Without a process the answer has
  status 500 and nothing changes.
\<close>

theorem start_clears_or_declines:
  "(m_process api = Some p \<longrightarrow>
      m_process (snd (handle_post_start S api)) = Some (snd (process_start S p))
      \<and> m_last_status (snd (handle_post_start S api)) = m_last_status api
      \<and> m_last_completed (snd (handle_post_start S api)) = m_last_completed api
      \<and> (fst (process_start S p) \<longrightarrow>
           \<not> m_has_completed (snd (handle_post_start S api))
           \<and> fst (handle_post_start S api)
               = \<lparr>res_status = None,
                  res_body = ''{'' @ quoted ''status'' @ '':'' @ quoted ''started'' @ ''}''\<rparr>)
      \<and> (\<not> fst (process_start S p) \<longrightarrow>
           res_status (fst (handle_post_start S api)) = Some 400
           \<and> m_has_completed (snd (handle_post_start S api)) = m_has_completed api))
   \<and> (m_process api = None \<longrightarrow>
        res_status (fst (handle_post_start S api)) = Some 500
        \<and> snd (handle_post_start S api) = api)"
  by (cases "process_start S p")
    (simp add: handle_post_start_def no_process_response_def split: option.splits)

theorem start_clears_or_declines_witness:
  "fst (process_start sample_process False)
   \<and> \<not> m_has_completed (snd (handle_post_start sample_process
        (update_completed default_SlicingCompletedInfo (new_HttpSlicerApi (Some False)))))
   \<and> m_process (snd (handle_post_start sample_process
        (update_completed default_SlicingCompletedInfo (new_HttpSlicerApi (Some False))))) = Some True
   \<and> \<not> fst (process_start sample_process True)
   \<and> res_status (fst (handle_post_start sample_process (new_HttpSlicerApi (Some True)))) = Some 400
   \<and> res_status (fst (handle_post_start sample_process (new_HttpSlicerApi None))) = Some 500"
proof -
  have procs: "m_process (update_completed default_SlicingCompletedInfo (new_HttpSlicerApi (Some False)))
      = Some False"
    "m_process (new_HttpSlicerApi (Some True) :: bool HttpSlicerApi) = Some True"
    "m_process (new_HttpSlicerApi None :: bool HttpSlicerApi) = None"
    by (simp_all add: update_completed_def new_HttpSlicerApi_def)
  have acc: "fst (process_start sample_process False)" "\<not> fst (process_start sample_process True)"
    "snd (process_start sample_process False) = True"
    by (simp_all add: sample_process_def)
  note ok = start_clears_or_declines [where S = sample_process and p = False
      and api = "update_completed default_SlicingCompletedInfo (new_HttpSlicerApi (Some False))"]
  note declined = start_clears_or_declines [where S = sample_process and p = True
      and api = "new_HttpSlicerApi (Some True)"]
  note none = start_clears_or_declines [where S = sample_process
      and api = "new_HttpSlicerApi None"]
  from ok procs(1) acc(1,3) have a: "\<not> m_has_completed (snd (handle_post_start sample_process
        (update_completed default_SlicingCompletedInfo (new_HttpSlicerApi (Some False)))))"
    and b: "m_process (snd (handle_post_start sample_process
        (update_completed default_SlicingCompletedInfo (new_HttpSlicerApi (Some False))))) = Some True"
    by simp_all
  from declined procs(2) acc(2)
  have c: "res_status (fst (handle_post_start sample_process (new_HttpSlicerApi (Some True)))) = Some 400"
    by simp
  from none procs(3)
  have d: "res_status (fst (handle_post_start sample_process (new_HttpSlicerApi None))) = Some 500"
    by simp
  from acc a b c d show ?thesis by blast
qed

end
